theory Spec2Isabelle
  imports Complex_Main
begin

section \<open>Python values\<close>

text \<open>
  The program is \<^verbatim>\<open>weather_tools copy.py\<close>: a fetcher
  (\<^verbatim>\<open>get_malaysia_weather_forecast\<close>) and a formatter
  (\<^verbatim>\<open>format_weather_forecast\<close>).

  A Python \<^verbatim>\<open>str\<close> is a \<^typ>\<open>string\<close> whose characters are code points.
  The built-in string methods below (\<open>lower\<close>, \<open>strip\<close>, \<open>title\<close>, \<open>repr\<close>)
  are the ASCII part of Python's: on a code point from 128 on they are the identity,
  where Python consults the Unicode tables. The one character beyond ASCII that the
  program itself writes is the degree sign U+00B0.
\<close>

text \<open>
  What \<^verbatim>\<open>response.json()\<close> can return. \<open>JNull\<close> is Python's \<^verbatim>\<open>None\<close>, which is
  also what the fetcher returns after a failure. A float is kept as the text that
  \<^verbatim>\<open>str()\<close> gives for it, the only thing besides its truth value that the program
  observes of it. A dict is the list of its items in insertion order.
\<close>

datatype json =
    JNull
  | JBool bool
  | JInt int
  | JFloat string
  | JStr string
  | JArr "json list"
  | JObj "(string \<times> json) list"

text \<open>The exception classes that the program can meet.\<close>

datatype exn_class =
    ConnectError
  | TimeoutException
  | HTTPStatusError
  | JSONDecodeError
  | CancelledError
  | AttributeError
  | KeyError
  | IndexError
  | TypeError
  | ValueError

text \<open>
  \<^verbatim>\<open>except Exception\<close> catches the subclasses of \<^verbatim>\<open>Exception\<close>;
  \<^verbatim>\<open>asyncio.CancelledError\<close> derives from \<^verbatim>\<open>BaseException\<close> only.
\<close>

fun derives_Exception :: "exn_class \<Rightarrow> bool" where
  "derives_Exception CancelledError = False"
| "derives_Exception _ = True"

subsection \<open>Characters\<close>

definition code :: "char \<Rightarrow> nat" where
  "code c = of_char c"

definition is_digit :: "char \<Rightarrow> bool" where
  "is_digit c = (48 \<le> code c \<and> code c \<le> 57)"

definition is_upper :: "char \<Rightarrow> bool" where
  "is_upper c = (65 \<le> code c \<and> code c \<le> 90)"

definition is_lower :: "char \<Rightarrow> bool" where
  "is_lower c = (97 \<le> code c \<and> code c \<le> 122)"

definition is_cased :: "char \<Rightarrow> bool" where
  "is_cased c = (is_upper c \<or> is_lower c)"

text \<open>\<^verbatim>\<open>str.isspace\<close> on ASCII: TAB, LF, VT, FF, CR, FS, GS, RS, US and the space.\<close>

definition is_space :: "char \<Rightarrow> bool" where
  "is_space c = ((9 \<le> code c \<and> code c \<le> 13) \<or> (28 \<le> code c \<and> code c \<le> 32))"

definition to_lower :: "char \<Rightarrow> char" where
  "to_lower c = (if is_upper c then char_of (code c + 32) else c)"

definition to_upper :: "char \<Rightarrow> char" where
  "to_upper c = (if is_lower c then char_of (code c - 32) else c)"

subsection \<open>String methods\<close>

definition py_lower :: "string \<Rightarrow> string" where
  "py_lower s = map to_lower s"

definition py_strip :: "string \<Rightarrow> string" where
  "py_strip s = rev (dropWhile is_space (rev (dropWhile is_space s)))"

text \<open>
  \<^verbatim>\<open>str.title\<close>: a character that follows a cased character is lower-cased, any other
  character is title-cased (upper-cased, on ASCII). The flag is \<^verbatim>\<open>previous_is_cased\<close>.
\<close>

fun title_from :: "bool \<Rightarrow> string \<Rightarrow> string" where
  "title_from prev [] = []"
| "title_from prev (c # cs) =
     (if prev then to_lower c else to_upper c) # title_from (is_cased c) cs"

definition py_title :: "string \<Rightarrow> string" where
  "py_title s = title_from False s"

fun join :: "string \<Rightarrow> string list \<Rightarrow> string" where
  "join sep [] = []"
| "join sep [x] = x"
| "join sep (x # y # ys) = x @ sep @ join sep (y # ys)"

subsection \<open>Numbers as text\<close>

definition digit_char :: "nat \<Rightarrow> char" where
  "digit_char n = char_of (48 + n)"

fun str_nat :: "nat \<Rightarrow> string" where
  "str_nat n = (if n < 10 then [digit_char n] else str_nat (n div 10) @ [digit_char (n mod 10)])"

declare str_nat.simps [simp del]

definition str_int :: "int \<Rightarrow> string" where
  "str_int i = (if i < 0 then CHR ''-'' # str_nat (nat (- i)) else str_nat (nat i))"

text \<open>\<^verbatim>\<open>int(s)\<close> on a string of decimal digits.\<close>

definition nat_of_digits :: "string \<Rightarrow> nat" where
  "nat_of_digits s = foldl (\<lambda>acc c. 10 * acc + (code c - 48)) 0 s"

subsection \<open>\<^verbatim>\<open>repr\<close>, \<^verbatim>\<open>str\<close> and truth values\<close>

definition hex_digit :: "nat \<Rightarrow> char" where
  "hex_digit n = (if n < 10 then char_of (48 + n) else char_of (87 + n))"

definition repr_char :: "char \<Rightarrow> char \<Rightarrow> string" where
  "repr_char quote c =
     (if c = quote \<or> c = CHR 0x5C then [CHR 0x5C, c]
      else if c = CHR 0x09 then [CHR 0x5C, CHR ''t'']
      else if c = CHR 0x0A then [CHR 0x5C, CHR ''n'']
      else if c = CHR 0x0D then [CHR 0x5C, CHR ''r'']
      else if code c < 32 \<or> code c = 127
        then [CHR 0x5C, CHR ''x'', hex_digit (code c div 16), hex_digit (code c mod 16)]
      else [c])"

text \<open>
  \<^verbatim>\<open>repr\<close> of a \<^verbatim>\<open>str\<close>: single quotes, unless the string has a single quote
  and no double quote.
\<close>

definition repr_str :: "string \<Rightarrow> string" where
  "repr_str s =
     (let quote = (if CHR 0x27 \<in> set s \<and> CHR 0x22 \<notin> set s then CHR 0x22 else CHR 0x27)
      in quote # concat (map (repr_char quote) s) @ [quote])"

fun py_repr :: "json \<Rightarrow> string" where
  "py_repr JNull = ''None''"
| "py_repr (JBool b) = (if b then ''True'' else ''False'')"
| "py_repr (JInt i) = str_int i"
| "py_repr (JFloat t) = t"
| "py_repr (JStr s) = repr_str s"
| "py_repr (JArr xs) = ''['' @ join '', '' (map py_repr xs) @ '']''"
| "py_repr (JObj kvs) =
     ''{'' @ join '', '' (map (\<lambda>kv. repr_str (fst kv) @ '': '' @ py_repr (snd kv)) kvs) @ ''}''"

text \<open>What an f-string puts for \<^verbatim>\<open>{v}\<close>: \<^verbatim>\<open>str(v)\<close>.\<close>

fun py_str :: "json \<Rightarrow> string" where
  "py_str (JStr s) = s"
| "py_str v = py_repr v"

fun truthy :: "json \<Rightarrow> bool" where
  "truthy JNull = False"
| "truthy (JBool b) = b"
| "truthy (JInt i) = (i \<noteq> 0)"
| "truthy (JFloat t) = (t \<noteq> ''0.0'' \<and> t \<noteq> ''-0.0'')"
| "truthy (JStr s) = (s \<noteq> [])"
| "truthy (JArr xs) = (xs \<noteq> [])"
| "truthy (JObj kvs) = (kvs \<noteq> [])"

text \<open>\<^verbatim>\<open>d.get(k, default)\<close> on a dict.\<close>

definition dict_get :: "(string \<times> json) list \<Rightarrow> string \<Rightarrow> json \<Rightarrow> json" where
  "dict_get d k dflt = (case map_of d k of None \<Rightarrow> dflt | Some v \<Rightarrow> v)"

text \<open>\<^verbatim>\<open>v.get(k, default)\<close> on any value: only a dict has the method.\<close>

fun py_get :: "json \<Rightarrow> string \<Rightarrow> json \<Rightarrow> exn_class + json" where
  "py_get (JObj d) k dflt = Inr (dict_get d k dflt)"
| "py_get _ k dflt = Inl AttributeError"

text \<open>\<^verbatim>\<open>v[k]\<close> with a string key.\<close>

fun getitem_key :: "json \<Rightarrow> string \<Rightarrow> exn_class + json" where
  "getitem_key (JObj d) k = (case map_of d k of None \<Rightarrow> Inl KeyError | Some v \<Rightarrow> Inr v)"
| "getitem_key (JArr xs) k = Inl TypeError"
| "getitem_key (JStr s) k = Inl TypeError"
| "getitem_key _ k = Inl TypeError"

text \<open>
  \<^verbatim>\<open>v[0]\<close>: the first element of a list, the first character of a string; a dict
  parsed from JSON has string keys only, so \<open>0\<close> is never one of them.
\<close>

fun getitem0 :: "json \<Rightarrow> exn_class + json" where
  "getitem0 (JArr []) = Inl IndexError"
| "getitem0 (JArr (x # xs)) = Inr x"
| "getitem0 (JStr []) = Inl IndexError"
| "getitem0 (JStr (c # cs)) = Inr (JStr [c])"
| "getitem0 (JObj d) = Inl KeyError"
| "getitem0 _ = Inl TypeError"

section \<open>Calendar dates\<close>

record datetime =
  year :: nat
  month :: nat
  day :: nat

definition is_leap :: "nat \<Rightarrow> bool" where
  "is_leap y = (y mod 4 = 0 \<and> (y mod 100 \<noteq> 0 \<or> y mod 400 = 0))"

definition days_in_month :: "nat \<Rightarrow> nat \<Rightarrow> nat" where
  "days_in_month y m =
     (if m = 2 then (if is_leap y then 29 else 28)
      else if m = 4 \<or> m = 6 \<or> m = 9 \<or> m = 11 then 30 else 31)"

text \<open>
  The constructor \<^verbatim>\<open>date(year, month, day)\<close>: \<^verbatim>\<open>ValueError\<close> outside
  \<open>MINYEAR = 1\<close> .. \<open>MAXYEAR = 9999\<close>, outside the twelve months, and for a day that
  the month does not have.
\<close>

definition make_date :: "nat \<Rightarrow> nat \<Rightarrow> nat \<Rightarrow> exn_class + datetime" where
  "make_date y m d =
     (if 1 \<le> y \<and> y \<le> 9999 \<and> 1 \<le> m \<and> m \<le> 12 \<and> 1 \<le> d \<and> d \<le> days_in_month y m
      then Inr \<lparr>year = y, month = m, day = d\<rparr>
      else Inl ValueError)"

subsection \<open>\<^verbatim>\<open>datetime.strptime(date, "%Y-%m-%d")\<close>\<close>

text \<open>
  CPython turns the format into the regular expression
  \<^verbatim>\<open>(?P<Y>\d\d\d\d)-(?P<m>1[0-2]|0[1-9]|[1-9])-(?P<d>3[0-1]|[1-2]\d|0[1-9]|[1-9]| [1-9])\<close>
  and matches it at the start of the string. An alternative is the list of its matches
  (the text it consumed and the rest), the alternatives of a group stand in the order
  the expression gives them, and the match is the first one of the backtracking search.
\<close>

definition in_range :: "char \<Rightarrow> char \<Rightarrow> char \<Rightarrow> bool" where
  "in_range lo hi c = (code lo \<le> code c \<and> code c \<le> code hi)"

fun two_chars :: "(char \<Rightarrow> bool) \<Rightarrow> (char \<Rightarrow> bool) \<Rightarrow> string \<Rightarrow> (string \<times> string) list" where
  "two_chars p q (a # b # r) = (if p a \<and> q b then [([a, b], r)] else [])"
| "two_chars p q r = []"

fun one_char :: "(char \<Rightarrow> bool) \<Rightarrow> string \<Rightarrow> (string \<times> string) list" where
  "one_char p (a # r) = (if p a then [([a], r)] else [])"
| "one_char p [] = []"

definition hyphen :: "string \<Rightarrow> string list" where
  "hyphen s = map snd (one_char (\<lambda>c. c = CHR ''-'') s)"

definition year_alts :: "string \<Rightarrow> (string \<times> string) list" where
  "year_alts s =
     (if 4 \<le> length s \<and> list_all is_digit (take 4 s) then [(take 4 s, drop 4 s)] else [])"

definition month_alts :: "string \<Rightarrow> (string \<times> string) list" where
  "month_alts s =
     two_chars (\<lambda>c. c = CHR ''1'') (in_range CHR ''0'' CHR ''2'') s
     @ two_chars (\<lambda>c. c = CHR ''0'') (in_range CHR ''1'' CHR ''9'') s
     @ one_char (in_range CHR ''1'' CHR ''9'') s"

definition day_alts :: "string \<Rightarrow> (string \<times> string) list" where
  "day_alts s =
     two_chars (\<lambda>c. c = CHR ''3'') (in_range CHR ''0'' CHR ''1'') s
     @ two_chars (in_range CHR ''1'' CHR ''2'') is_digit s
     @ two_chars (\<lambda>c. c = CHR ''0'') (in_range CHR ''1'' CHR ''9'') s
     @ one_char (in_range CHR ''1'' CHR ''9'') s
     @ two_chars (\<lambda>c. c = CHR '' '') (in_range CHR ''1'' CHR ''9'') s"

text \<open>The groups of the first match and the text left after it.\<close>

definition match_ymd :: "string \<Rightarrow> (string \<times> string \<times> string \<times> string) option" where
  "match_ymd s =
     (case [(y, m, d, rest).
              (y, r0) \<leftarrow> year_alts s, r1 \<leftarrow> hyphen r0,
              (m, r2) \<leftarrow> month_alts r1, r3 \<leftarrow> hyphen r2,
              (d, rest) \<leftarrow> day_alts r3]
      of [] \<Rightarrow> None | found # others \<Rightarrow> Some found)"

text \<open>
  No match, text left after the match, and a date that the calendar does not have are
  all \<^verbatim>\<open>ValueError\<close>. \<^verbatim>\<open>int\<close> skips the space that the day group may start with.
\<close>

definition strptime_ymd :: "string \<Rightarrow> exn_class + datetime" where
  "strptime_ymd s =
     (case match_ymd s of
        None \<Rightarrow> Inl ValueError
      | Some (y, m, d, rest) \<Rightarrow>
          if rest \<noteq> [] then Inl ValueError
          else make_date (nat_of_digits y) (nat_of_digits m)
                 (nat_of_digits (dropWhile is_space d)))"

subsection \<open>\<^verbatim>\<open>strftime("%d %b %Y")\<close>\<close>

definition zfill :: "nat \<Rightarrow> string \<Rightarrow> string" where
  "zfill w s = replicate (w - length s) CHR ''0'' @ s"

text \<open>\<^verbatim>\<open>%b\<close> in the C locale, which a program that never calls \<^verbatim>\<open>setlocale\<close> runs in.\<close>

definition month_abbr :: "nat \<Rightarrow> string" where
  "month_abbr m =
     [''Jan'', ''Feb'', ''Mar'', ''Apr'', ''May'', ''Jun'',
      ''Jul'', ''Aug'', ''Sep'', ''Oct'', ''Nov'', ''Dec''] ! (m - 1)"

text \<open>
  \<^verbatim>\<open>%d\<close> is the day on two digits, \<^verbatim>\<open>%Y\<close> the year on four, as the Python
  documentation gives them (\<open>01\<close> .. \<open>31\<close>, \<open>0001\<close> .. \<open>9999\<close>). A \<open>datetime\<close> always has
  a month from 1 to 12.
\<close>

definition strftime_dbY :: "datetime \<Rightarrow> string" where
  "strftime_dbY t =
     zfill 2 (str_nat (day t)) @ '' '' @ month_abbr (month t) @ '' '' @ zfill 4 (str_nat (year t))"

section \<open>The HTTP exchange\<close>

record http_request =
  url :: string
  params :: "(string \<times> string) list"
  headers :: "(string \<times> string) list"
  timeout :: real

text \<open>What \<^verbatim>\<open>response.json()\<close> does: the decoded value, or a decoding error with its text.\<close>

datatype json_body = Decodes json | Malformed string

text \<open>
  A response: its status, the text of the \<^verbatim>\<open>HTTPStatusError\<close> that
  \<^verbatim>\<open>raise_for_status\<close> builds for it when it raises, and its body.
\<close>

record http_response =
  status_code :: nat
  status_error :: string
  body :: json_body

text \<open>
  What \<^verbatim>\<open>client.get\<close> does: it raises an exception (class and \<^verbatim>\<open>str(e)\<close>), or it
  returns a response. The network is a function from the request to this outcome.
\<close>

datatype http_outcome = Raises exn_class string | Responds http_response

type_synonym network = "http_request \<Rightarrow> http_outcome"

text \<open>The effects of a call, in order: requests sent and lines printed.\<close>

datatype event = HttpGet http_request | Print string

fun requests :: "event list \<Rightarrow> http_request list" where
  "requests [] = []"
| "requests (HttpGet r # es) = r # requests es"
| "requests (Print l # es) = requests es"

fun printed :: "event list \<Rightarrow> string list" where
  "printed [] = []"
| "printed (HttpGet r # es) = printed es"
| "printed (Print l # es) = l # printed es"

text \<open>
  \<^verbatim>\<open>response.raise_for_status()\<close> of httpx returns for a status from 200 to 299 and
  raises \<^verbatim>\<open>HTTPStatusError\<close> for any other.
\<close>

definition is_success :: "http_response \<Rightarrow> bool" where
  "is_success r = (200 \<le> status_code r \<and> status_code r \<le> 299)"

section \<open>The fetcher\<close>

text \<open>
  The request that lines 22-39 build. The \<^verbatim>\<open>timeout\<close> parameter has the default
  \<open>15.0\<close>: the argument is \<open>None\<close> when the caller leaves it out.
\<close>

definition build_request :: "string \<Rightarrow> string \<Rightarrow> real option \<Rightarrow> http_request" where
  "build_request location date timeout_arg =
     \<lparr>url = ''https://api.data.gov.my/weather'',
      params = [(''location'', py_strip (py_lower location)),
                (''date'', date),
                (''category'', ''forecast'')],
      headers = [(''User-Agent'', ''MalaysiaWeatherForecast/1.0''),
                 (''Accept'', ''application/json'')],
      timeout = (case timeout_arg of None \<Rightarrow> 15 | Some t \<Rightarrow> t)\<rparr>"

text \<open>The body of the \<^verbatim>\<open>try\<close>, lines 30-41: the value returned or the exception raised.\<close>

definition attempt :: "network \<Rightarrow> http_request \<Rightarrow> (exn_class \<times> string) + json" where
  "attempt net req =
     (case net req of
        Raises c msg \<Rightarrow> Inl (c, msg)
      | Responds r \<Rightarrow>
          if \<not> is_success r then Inl (HTTPStatusError, status_error r)
          else (case body r of
                  Malformed msg \<Rightarrow> Inl (JSONDecodeError, msg)
                | Decodes j \<Rightarrow> Inr j))"

text \<open>
  The result is the events of the call and either the exception that leaves the function
  or the value returned. The handler of line 42 takes an exception that derives from
  \<^verbatim>\<open>Exception\<close>, prints it and returns \<^verbatim>\<open>None\<close>.
\<close>

definition get_malaysia_weather_forecast ::
  "network \<Rightarrow> string \<Rightarrow> string \<Rightarrow> real option \<Rightarrow> event list \<times> (exn_class + json)" where
  "get_malaysia_weather_forecast net location date timeout_arg =
     (let req = build_request location date timeout_arg in
      case attempt net req of
        Inr j \<Rightarrow> ([HttpGet req], Inr j)
      | Inl (c, msg) \<Rightarrow>
          if derives_Exception c
          then ([HttpGet req, Print (''Weather API error: '' @ msg)], Inr JNull)
          else ([HttpGet req], Inl c))"

section \<open>The formatter\<close>

definition newline :: string where
  "newline = [CHR 0x0A]"

text \<open>The degree sign U+00B0 and the letter C.\<close>

definition degrees_C :: string where
  "degrees_C = [CHR 0xB0, CHR ''C'']"

definition fallback :: "string \<Rightarrow> string \<Rightarrow> string" where
  "fallback location date =
     ''No forecast available for '' @ py_title location @ '' on '' @ date"

text \<open>\<^verbatim>\<open>{forecast.get(key, default)}\<close> inside the f-string, on a forecast that is a dict.\<close>

definition field :: "(string \<times> json) list \<Rightarrow> string \<Rightarrow> string \<Rightarrow> string" where
  "field forecast k dflt = py_str (dict_get forecast k (JStr dflt))"

text \<open>The string of lines 68-76.\<close>

definition report :: "string \<Rightarrow> datetime \<Rightarrow> (string \<times> json) list \<Rightarrow> string" where
  "report location date_obj forecast =
     py_title location @ '' Weather Forecast ('' @ strftime_dbY date_obj @ ''):'' @ newline
     @ ''Condition: '' @ field forecast ''weather_condition'' ''N/A'' @ newline
     @ ''Temperature: '' @ field forecast ''temperature_min'' ''N/A'' @ degrees_C
         @ '' - '' @ field forecast ''temperature_max'' ''N/A'' @ degrees_C @ newline
     @ ''Humidity: '' @ field forecast ''humidity_min'' ''N/A'' @ ''%''
         @ '' - '' @ field forecast ''humidity_max'' ''N/A'' @ ''%'' @ newline
     @ ''Wind: '' @ field forecast ''wind_speed'' ''N/A'' @ '' km/h ''
         @ field forecast ''wind_direction'' [] @ newline
     @ ''Rain Probability: '' @ field forecast ''rain_probability'' ''N/A'' @ ''%'' @ newline
     @ newline @ ''Source: Data.gov.my Weather API''"

text \<open>
  Lines 62-76, on the value that the fetcher returned. \<^verbatim>\<open>not data\<close> is decided
  first; \<^verbatim>\<open>data.get\<close> needs a dict; \<^verbatim>\<open>data["data"][0]\<close> is taken before the date
  is parsed, and the date is parsed before the f-string calls \<^verbatim>\<open>forecast.get\<close>.
\<close>

definition format_body :: "string \<Rightarrow> string \<Rightarrow> json \<Rightarrow> exn_class + string" where
  "format_body location date data =
     (if \<not> truthy data then Inr (fallback location date)
      else case py_get data ''data'' JNull of
        Inl e \<Rightarrow> Inl e
      | Inr got \<Rightarrow>
          if \<not> truthy got then Inr (fallback location date)
          else case getitem_key data ''data'' of
            Inl e \<Rightarrow> Inl e
          | Inr seq \<Rightarrow>
              (case getitem0 seq of
                 Inl e \<Rightarrow> Inl e
               | Inr forecast \<Rightarrow>
                   (case strptime_ymd date of
                      Inl e \<Rightarrow> Inl e
                    | Inr date_obj \<Rightarrow>
                        (case forecast of
                           JObj f \<Rightarrow> Inr (report location date_obj f)
                         | _ \<Rightarrow> Inl AttributeError))))"

text \<open>
  Line 60 calls the fetcher with the location and the date and no timeout; an exception
  that leaves the fetcher leaves the formatter.
\<close>

definition format_weather_forecast ::
  "network \<Rightarrow> string \<Rightarrow> string \<Rightarrow> event list \<times> (exn_class + string)" where
  "format_weather_forecast net location date =
     (case get_malaysia_weather_forecast net location date None of
        (events, Inl e) \<Rightarrow> (events, Inl e)
      | (events, Inr data) \<Rightarrow> (events, format_body location date data))"

section \<open>The words of the specification\<close>

text \<open>
  The text of a field as the specification gives it: the default when the key is absent
  from the record (the empty string for \<open>wind_direction\<close>, \<open>N/A\<close> for the others), the
  value as \<^verbatim>\<open>str\<close> writes it when the key is there.
\<close>

definition default_text :: "string \<Rightarrow> string" where
  "default_text k = (if k = ''wind_direction'' then [] else ''N/A'')"

definition shown :: "(string \<times> json) list \<Rightarrow> string \<Rightarrow> string" where
  "shown f k = (case map_of f k of None \<Rightarrow> default_text k | Some v \<Rightarrow> py_str v)"

text \<open>
  The fixed layout: the title line, the five field lines, a blank line and the
  attribution line, with \<open>txt\<close> giving the text of each field.
\<close>

definition layout :: "string \<Rightarrow> (string \<Rightarrow> string) \<Rightarrow> string" where
  "layout title_line txt =
     join newline
       [title_line,
        ''Condition: '' @ txt ''weather_condition'',
        ''Temperature: '' @ txt ''temperature_min'' @ degrees_C
           @ '' - '' @ txt ''temperature_max'' @ degrees_C,
        ''Humidity: '' @ txt ''humidity_min'' @ ''%'' @ '' - '' @ txt ''humidity_max'' @ ''%'',
        ''Wind: '' @ txt ''wind_speed'' @ '' km/h '' @ txt ''wind_direction'',
        ''Rain Probability: '' @ txt ''rain_probability'' @ ''%'',
        [],
        ''Source: Data.gov.my Weather API'']"

definition title_line :: "string \<Rightarrow> string \<Rightarrow> string" where
  "title_line place shown_date = place @ '' Weather Forecast ('' @ shown_date @ ''):''"







text \<open>
  The date strings that \<^verbatim>\<open>strptime\<close> takes under \<^verbatim>\<open>%Y-%m-%d\<close>: a year of four
  digits, a hyphen, a month of one or two digits from 1 to 12, a hyphen, and a day of one
  or two digits from 1 to 31 or of a space and a digit from 1 to 9, the whole a day of
  the calendar from the year 1 on.
\<close>

definition month_number :: "string \<Rightarrow> bool" where
  "month_number m =
     ((length m = 1 \<or> length m = 2) \<and> list_all is_digit m
      \<and> 1 \<le> nat_of_digits m \<and> nat_of_digits m \<le> 12)"

definition day_number :: "string \<Rightarrow> bool" where
  "day_number d =
     (((length d = 1 \<or> length d = 2) \<and> list_all is_digit d
       \<and> 1 \<le> nat_of_digits d \<and> nat_of_digits d \<le> 31)
      \<or> (length d = 2 \<and> d ! 0 = CHR '' '' \<and> in_range CHR ''1'' CHR ''9'' (d ! 1)))"

definition loose_ymd :: "string \<Rightarrow> bool" where
  "loose_ymd s =
     (let y = take 4 s;
          r = drop 5 s;
          m = takeWhile (\<lambda>c. c \<noteq> CHR ''-'') r;
          d = drop (Suc (length m)) r
      in length y = 4 \<and> list_all is_digit y \<and> take 1 (drop 4 s) = ''-''
         \<and> month_number m \<and> take 1 (drop (length m) r) = ''-''
         \<and> day_number d
         \<and> 1 \<le> nat_of_digits y
         \<and> nat_of_digits (dropWhile is_space d)
              \<le> days_in_month (nat_of_digits y) (nat_of_digits m))"

section \<open>Examples\<close>

text \<open>A network that answers 200 with a given JSON value.\<close>

definition answers :: "json \<Rightarrow> network" where
  "answers j = (\<lambda>r. Responds \<lparr>status_code = 200, status_error = [], body = Decodes j\<rparr>)"

text \<open>The record of the end-to-end example of the specification.\<close>

definition sunny :: "(string \<times> json) list" where
  "sunny =
     [(''weather_condition'', JStr ''Sunny''),
      (''temperature_min'', JInt 24), (''temperature_max'', JInt 32),
      (''humidity_min'', JInt 60), (''humidity_max'', JInt 85),
      (''wind_speed'', JInt 10), (''wind_direction'', JStr ''NE''),
      (''rain_probability'', JInt 20)]"


section \<open>What the fetcher and the formatter return\<close>

lemma fetch_result:
  "snd (get_malaysia_weather_forecast net location date t) =
     (case attempt net (build_request location date t) of
        Inr j \<Rightarrow> Inr j
      | Inl (c, msg) \<Rightarrow> if derives_Exception c then Inr JNull else Inl c)"
  by (simp add: get_malaysia_weather_forecast_def Let_def split: sum.split prod.split)

lemma fetch_requests:
  "requests (fst (get_malaysia_weather_forecast net location date t)) =
     [build_request location date t]"
  by (simp add: get_malaysia_weather_forecast_def Let_def split: sum.split prod.split)

lemma format_result:
  "snd (format_weather_forecast net location date) =
     (case snd (get_malaysia_weather_forecast net location date None) of
        Inl e \<Rightarrow> Inl e
      | Inr data \<Rightarrow> format_body location date data)"
  by (simp add: format_weather_forecast_def split: prod.split sum.split)

lemma format_events:
  "fst (format_weather_forecast net location date) =
     fst (get_malaysia_weather_forecast net location date None)"
  by (simp add: format_weather_forecast_def split: prod.split sum.split)

lemma format_body_None: "format_body location date JNull = Inr (fallback location date)"
  by (simp add: format_body_def)


lemma format_body_first:
  "map_of d ''data'' = Some (JArr (x # xs)) \<Longrightarrow>
   format_body location date (JObj d) =
     (case strptime_ymd date of
        Inl e \<Rightarrow> Inl e
      | Inr date_obj \<Rightarrow>
          (case x of JObj f \<Rightarrow> Inr (report location date_obj f) | _ \<Rightarrow> Inl AttributeError))"
  by (cases d) (auto simp: format_body_def dict_get_def split: sum.split)

lemma field_shown:
  "k \<noteq> ''wind_direction'' \<Longrightarrow> field f k ''N/A'' = shown f k"
  "field f ''wind_direction'' [] = shown f ''wind_direction''"
  by (simp_all add: field_def shown_def dict_get_def default_text_def split: option.split)

lemma report_layout:
  "report location date_obj f =
     layout (title_line (py_title location) (strftime_dbY date_obj)) (shown f)"
  by (simp add: report_def layout_def title_line_def field_shown)

lemma format_with_record:
  assumes "snd (get_malaysia_weather_forecast net location date None) = Inr (JObj d)"
    and "map_of d ''data'' = Some (JArr (x # others))"
  shows "snd (format_weather_forecast net location date) =
           (case strptime_ymd date of
              Inl e \<Rightarrow> Inl e
            | Inr date_obj \<Rightarrow>
                (case x of
                   JObj f \<Rightarrow>
                     Inr (layout (title_line (py_title location) (strftime_dbY date_obj)) (shown f))
                 | _ \<Rightarrow> Inl AttributeError))"
  using assms by (simp add: format_result format_body_first report_layout split: sum.split json.split)


lemma fetch_answers:
  "snd (get_malaysia_weather_forecast
          (\<lambda>r. Responds \<lparr>status_code = 200, status_error = e, body = Decodes j\<rparr>)
          location date t) = Inr j"
  by (simp add: fetch_result attempt_def is_success_def)

lemma fetch_answers': "snd (get_malaysia_weather_forecast (answers j) location date t) = Inr j"
  by (simp add: answers_def fetch_answers)

section \<open>Reading and writing a date\<close>









lemma code_simps:
  "code CHR ''0'' = 48" "code CHR ''1'' = 49" "code CHR ''2'' = 50" "code CHR ''3'' = 51"
  "code CHR ''9'' = 57" "code CHR '' '' = 32" "code CHR ''-'' = 45"
  by (simp_all add: code_def)

lemma char_eq_code: "c = d \<longleftrightarrow> code c = code d"
  by (simp add: code_def)

lemma two_digits_value:
  "nat_of_digits [a, b] = 10 * (code a - 48) + (code b - 48)"
  by (simp add: nat_of_digits_def)

lemma digit_code:
  assumes "is_digit c"
  obtains n where "n < 10" "code c = 48 + n"
proof
  from assms show "code c - 48 < 10" "code c = 48 + (code c - 48)"
    by (auto simp: is_digit_def)
qed

lemma month_alts_digits:
  assumes "is_digit m1" "is_digit m2"
  shows "month_alts (m1 # m2 # r) =
           (if 1 \<le> nat_of_digits [m1, m2] \<and> nat_of_digits [m1, m2] \<le> 12
            then [([m1, m2], r)] else [])
           @ (if m1 \<noteq> CHR ''0'' then [([m1], m2 # r)] else [])"
proof -
  let ?v = "nat_of_digits [m1, m2]"
  from assms(1) obtain a where a: "a < 10" "code m1 = 48 + a" by (rule digit_code)
  from assms(2) obtain b where b: "b < 10" "code m2 = 48 + b" by (rule digit_code)
  have v: "?v = 10 * a + b" by (simp add: two_digits_value a b)
  have a1: "(m1 = CHR ''1'' \<and> in_range CHR ''0'' CHR ''2'' m2) \<longleftrightarrow> 10 \<le> ?v \<and> ?v \<le> 12"
    unfolding v char_eq_code [of m1] in_range_def code_simps a(2) b(2) using a(1) b(1) by arith
  have a2: "(m1 = CHR ''0'' \<and> in_range CHR ''1'' CHR ''9'' m2) \<longleftrightarrow> 1 \<le> ?v \<and> ?v \<le> 9"
    unfolding v char_eq_code [of m1] in_range_def code_simps a(2) b(2) using a(1) b(1) by arith
  have a3: "in_range CHR ''1'' CHR ''9'' m1 \<longleftrightarrow> m1 \<noteq> CHR ''0''"
    unfolding char_eq_code [of m1] in_range_def code_simps a(2) using a(1) by arith
  have "month_alts (m1 # m2 # r) =
          (if 10 \<le> ?v \<and> ?v \<le> 12 then [([m1, m2], r)] else [])
          @ (if 1 \<le> ?v \<and> ?v \<le> 9 then [([m1, m2], r)] else [])
          @ (if m1 \<noteq> CHR ''0'' then [([m1], m2 # r)] else [])"
    by (simp only: month_alts_def two_chars.simps one_char.simps a1 a2 a3)
  also have "\<dots> = (if 1 \<le> ?v \<and> ?v \<le> 12 then [([m1, m2], r)] else [])
                 @ (if m1 \<noteq> CHR ''0'' then [([m1], m2 # r)] else [])"
    by (cases "10 \<le> ?v") auto
  finally show ?thesis .
qed

lemma day_alts_digits:
  assumes "is_digit d1" "is_digit d2"
  shows "day_alts (d1 # d2 # r) =
           (if 1 \<le> nat_of_digits [d1, d2] \<and> nat_of_digits [d1, d2] \<le> 31
            then [([d1, d2], r)] else [])
           @ (if d1 \<noteq> CHR ''0'' then [([d1], d2 # r)] else [])"
proof -
  let ?v = "nat_of_digits [d1, d2]"
  from assms(1) obtain a where a: "a < 10" "code d1 = 48 + a" by (rule digit_code)
  from assms(2) obtain b where b: "b < 10" "code d2 = 48 + b" by (rule digit_code)
  have v: "?v = 10 * a + b" by (simp add: two_digits_value a b)
  have a1: "(d1 = CHR ''3'' \<and> in_range CHR ''0'' CHR ''1'' d2) \<longleftrightarrow> 30 \<le> ?v \<and> ?v \<le> 31"
    unfolding v char_eq_code [of d1] in_range_def code_simps a(2) b(2) using a(1) b(1) by arith
  have a2: "(in_range CHR ''1'' CHR ''2'' d1 \<and> is_digit d2) \<longleftrightarrow> 10 \<le> ?v \<and> ?v \<le> 29"
    unfolding v in_range_def is_digit_def code_simps a(2) b(2) using a(1) b(1) by arith
  have a3: "(d1 = CHR ''0'' \<and> in_range CHR ''1'' CHR ''9'' d2) \<longleftrightarrow> 1 \<le> ?v \<and> ?v \<le> 9"
    unfolding v char_eq_code [of d1] in_range_def code_simps a(2) b(2) using a(1) b(1) by arith
  have a4: "in_range CHR ''1'' CHR ''9'' d1 \<longleftrightarrow> d1 \<noteq> CHR ''0''"
    unfolding char_eq_code [of d1] in_range_def code_simps a(2) using a(1) by arith
  have a5: "(d1 = CHR '' '' \<and> in_range CHR ''1'' CHR ''9'' d2) \<longleftrightarrow> False"
    unfolding char_eq_code [of d1] code_simps a(2) by arith
  have "day_alts (d1 # d2 # r) =
          (if 30 \<le> ?v \<and> ?v \<le> 31 then [([d1, d2], r)] else [])
          @ (if 10 \<le> ?v \<and> ?v \<le> 29 then [([d1, d2], r)] else [])
          @ (if 1 \<le> ?v \<and> ?v \<le> 9 then [([d1, d2], r)] else [])
          @ (if d1 \<noteq> CHR ''0'' then [([d1], d2 # r)] else [])"
    by (simp only: day_alts_def two_chars.simps one_char.simps a1 a2 a3 a4 a5 if_False
          append_Nil2)
  also have "\<dots> = (if 1 \<le> ?v \<and> ?v \<le> 31 then [([d1, d2], r)] else [])
                 @ (if d1 \<noteq> CHR ''0'' then [([d1], d2 # r)] else [])"
    by (cases "30 \<le> ?v"; cases "10 \<le> ?v") auto
  finally show ?thesis .
qed

lemma hyphen_simps:
  "hyphen (CHR ''-'' # r) = [r]"
  "is_digit c \<Longrightarrow> hyphen (c # r) = []"
  by (auto simp: hyphen_def is_digit_def code_def)

lemma digit_not_space: "is_digit c \<Longrightarrow> \<not> is_space c"
  by (auto simp: is_digit_def is_space_def)

lemma four_digits_bound:
  "is_digit a \<Longrightarrow> is_digit b \<Longrightarrow> is_digit c \<Longrightarrow> is_digit d \<Longrightarrow>
   nat_of_digits [a, b, c, d] \<le> 9999"
  by (auto simp: is_digit_def nat_of_digits_def)


lemma month_step:
  assumes "is_digit m1" "is_digit m2"
  shows "concat (map (\<lambda>(m, r2). concat (map (F m) (hyphen r2)))
                  (month_alts (m1 # m2 # CHR ''-'' # r))) =
           (if 1 \<le> nat_of_digits [m1, m2] \<and> nat_of_digits [m1, m2] \<le> 12
            then F [m1, m2] r else [])"
  by (auto simp: month_alts_digits [OF assms] hyphen_simps assms)




lemma strptime_whole:
  "match_ymd s = Some (y, m, d, []) \<Longrightarrow>
   strptime_ymd s =
     make_date (nat_of_digits y) (nat_of_digits m) (nat_of_digits (dropWhile is_space d))"
  by (simp add: strptime_ymd_def)











lemma strptime_only_ValueError: "strptime_ymd s = Inl e \<Longrightarrow> e = ValueError"
  by (auto simp: strptime_ymd_def make_date_def split: option.splits if_splits)



subsection \<open>The dates that are accepted\<close>

lemma two_chars_member:
  "(x, rest) \<in> set (two_chars p q r) \<Longrightarrow> \<exists>a b. x = [a, b] \<and> r = a # b # rest \<and> p a \<and> q b"
  by (cases "(p, q, r)" rule: two_chars.cases) (auto split: if_splits)

lemma one_char_member:
  "(x, rest) \<in> set (one_char p r) \<Longrightarrow> \<exists>a. x = [a] \<and> r = a # rest \<and> p a"
  by (cases r) (auto split: if_splits)

lemma hyphen_member: "r \<in> set (hyphen x) \<Longrightarrow> x = CHR ''-'' # r"
  by (auto simp: hyphen_def dest: one_char_member)

lemma year_alts_member:
  "(y, r) \<in> set (year_alts s) \<Longrightarrow> s = y @ r \<and> length y = 4 \<and> list_all is_digit y"
  by (auto simp: year_alts_def split: if_splits)

lemma one_digit_value: "nat_of_digits [a] = code a - 48"
  by (simp add: nat_of_digits_def)

lemma month_alts_member:
  assumes "(m, r) \<in> set (month_alts s)"
  shows "s = m @ r \<and> month_number m"
proof -
  from assms consider
      a b where "m = [a, b]" "s = a # b # r" "a = CHR ''1''" "in_range CHR ''0'' CHR ''2'' b"
    | a b where "m = [a, b]" "s = a # b # r" "a = CHR ''0''" "in_range CHR ''1'' CHR ''9'' b"
    | a where "m = [a]" "s = a # r" "in_range CHR ''1'' CHR ''9'' a"
    by (auto simp: month_alts_def dest!: two_chars_member one_char_member)
  then show ?thesis
  proof cases
    case 1
    then show ?thesis
      by (auto simp: month_number_def two_digits_value is_digit_def in_range_def code_simps)
  next
    case 2
    then show ?thesis
      by (auto simp: month_number_def two_digits_value is_digit_def in_range_def code_simps)
  next
    case 3
    then show ?thesis
      by (auto simp: month_number_def one_digit_value is_digit_def in_range_def code_simps)
  qed
qed

lemma day_alts_member:
  assumes "(d, r) \<in> set (day_alts s)"
  shows "s = d @ r \<and> day_number d"
proof -
  from assms consider
      a b where "d = [a, b]" "s = a # b # r" "a = CHR ''3''" "in_range CHR ''0'' CHR ''1'' b"
    | a b where "d = [a, b]" "s = a # b # r" "in_range CHR ''1'' CHR ''2'' a" "is_digit b"
    | a b where "d = [a, b]" "s = a # b # r" "a = CHR ''0''" "in_range CHR ''1'' CHR ''9'' b"
    | a where "d = [a]" "s = a # r" "in_range CHR ''1'' CHR ''9'' a"
    | a b where "d = [a, b]" "s = a # b # r" "a = CHR '' ''" "in_range CHR ''1'' CHR ''9'' b"
    by (auto simp: day_alts_def dest!: two_chars_member one_char_member)
  then show ?thesis
  proof cases
    case 1
    then show ?thesis
      by (auto simp: day_number_def two_digits_value is_digit_def in_range_def code_simps)
  next
    case 2
    then show ?thesis
      by (auto simp: day_number_def two_digits_value is_digit_def in_range_def code_simps)
  next
    case 3
    then show ?thesis
      by (auto simp: day_number_def two_digits_value is_digit_def in_range_def code_simps)
  next
    case 4
    then show ?thesis
      by (auto simp: day_number_def one_digit_value is_digit_def in_range_def code_simps)
  next
    case 5
    then show ?thesis by (simp add: day_number_def)
  qed
qed

lemma match_ymd_member:
  assumes "match_ymd s = Some (y, m, d, rest)"
  shows "\<exists>r0 r1 r2 r3. (y, r0) \<in> set (year_alts s) \<and> r1 \<in> set (hyphen r0)
           \<and> (m, r2) \<in> set (month_alts r1) \<and> r3 \<in> set (hyphen r2)
           \<and> (d, rest) \<in> set (day_alts r3)"
proof -
  let ?all = "[(y, m, d, rest).
              (y, r0) \<leftarrow> year_alts s, r1 \<leftarrow> hyphen r0,
              (m, r2) \<leftarrow> month_alts r1, r3 \<leftarrow> hyphen r2,
              (d, rest) \<leftarrow> day_alts r3]"
  from assms obtain others where "?all = (y, m, d, rest) # others"
    by (auto simp: match_ymd_def split: list.splits)
  then have "(y, m, d, rest) \<in> set ?all"
    by (metis list.set_intros(1))
  then show ?thesis by auto
qed

lemma match_ymd_form:
  assumes "match_ymd s = Some (y, m, d, rest)"
  shows "s = y @ CHR ''-'' # m @ CHR ''-'' # d @ rest
         \<and> length y = 4 \<and> list_all is_digit y \<and> month_number m \<and> day_number d"
proof -
  from match_ymd_member [OF assms] obtain r0 r1 r2 r3 where
    "(y, r0) \<in> set (year_alts s)" "r1 \<in> set (hyphen r0)"
    "(m, r2) \<in> set (month_alts r1)" "r3 \<in> set (hyphen r2)"
    "(d, rest) \<in> set (day_alts r3)" by blast
  then show ?thesis
    using year_alts_member [of y r0 s] hyphen_member [of r1 r0]
      month_alts_member [of m r2 r1] hyphen_member [of r3 r2] day_alts_member [of d rest r3]
    by simp
qed

lemma digit_not_hyphen: "is_digit c \<Longrightarrow> c \<noteq> CHR ''-''"
  by (auto simp: is_digit_def code_simps)

lemma split_at_hyphens:
  assumes "length y = 4" "list_all is_digit m"
  shows "loose_ymd (y @ CHR ''-'' # m @ CHR ''-'' # d) \<longleftrightarrow>
           list_all is_digit y \<and> month_number m \<and> day_number d
           \<and> 1 \<le> nat_of_digits y
           \<and> nat_of_digits (dropWhile is_space d)
                \<le> days_in_month (nat_of_digits y) (nat_of_digits m)"
proof -
  from assms(2) have "\<forall>c\<in>set m. c \<noteq> CHR ''-''"
    by (auto simp: list_all_iff dest: digit_not_hyphen)
  then have "takeWhile (\<lambda>c. c \<noteq> CHR ''-'') (m @ CHR ''-'' # d) = m"
    by simp
  with assms(1) show ?thesis
    by (simp add: loose_ymd_def Let_def)
qed

lemma strptime_accepts_loose:
  assumes "strptime_ymd s = Inr t"
  shows "loose_ymd s"
proof -
  from assms obtain y m d where
    mt: "match_ymd s = Some (y, m, d, [])"
    and md: "make_date (nat_of_digits y) (nat_of_digits m)
               (nat_of_digits (dropWhile is_space d)) = Inr t"
    by (auto simp: strptime_ymd_def split: option.splits if_splits)
  from match_ymd_form [OF mt] have s: "s = y @ CHR ''-'' # m @ CHR ''-'' # d"
    and f: "length y = 4" "list_all is_digit y" "month_number m" "day_number d"
    by simp_all
  from f(3) have dm: "list_all is_digit m" by (simp add: month_number_def)
  from md have "1 \<le> nat_of_digits y"
    "nat_of_digits (dropWhile is_space d) \<le> days_in_month (nat_of_digits y) (nat_of_digits m)"
    by (simp_all add: make_date_def split: if_splits)
  with f show ?thesis
    unfolding s by (simp add: split_at_hyphens [OF f(1) dm])
qed

lemma strptime_rejects: "\<not> loose_ymd s \<Longrightarrow> strptime_ymd s = Inl ValueError"
  using strptime_accepts_loose [of s] strptime_only_ValueError [of s]
  by (cases "strptime_ymd s") auto

lemma month_step_one:
  assumes "in_range CHR ''1'' CHR ''9'' a"
  shows "concat (map (\<lambda>(m, r2). concat (map (F m) (hyphen r2)))
                  (month_alts (a # CHR ''-'' # r))) = F [a] r"
proof -
  have "\<not> in_range CHR ''0'' CHR ''2'' CHR ''-''" "\<not> in_range CHR ''1'' CHR ''9'' CHR ''-''"
    by (simp_all add: in_range_def code_simps)
  then have "month_alts (a # CHR ''-'' # r) = [([a], CHR ''-'' # r)]"
    using assms by (simp add: month_alts_def)
  then show ?thesis by (simp add: hyphen_simps)
qed

lemma month_number_cases:
  assumes "month_number m"
  obtains a where "m = [a]" "in_range CHR ''1'' CHR ''9'' a"
  | a b where "m = [a, b]" "is_digit a" "is_digit b"
      "1 \<le> nat_of_digits [a, b] \<and> nat_of_digits [a, b] \<le> 12"
proof -
  from assms consider "length m = 1" | "length m = 2" by (auto simp: month_number_def)
  then show thesis
  proof cases
    case 1
    then obtain a where m: "m = [a]" by (cases m) auto
    with assms have "in_range CHR ''1'' CHR ''9'' a"
      by (auto simp: month_number_def one_digit_value is_digit_def in_range_def code_simps)
    with m that(1) show thesis by blast
  next
    case 2
    then obtain a b where m: "m = [a, b]"
      by (cases m) (auto simp: length_Suc_conv)
    with assms that(2) show thesis by (auto simp: month_number_def)
  qed
qed

lemma month_step_number:
  assumes "month_number m"
  shows "concat (map (\<lambda>(m, r2). concat (map (F m) (hyphen r2)))
                  (month_alts (m @ CHR ''-'' # r))) = F m r"
  using assms
proof (cases rule: month_number_cases)
  case (1 a)
  then show ?thesis by (simp add: month_step_one)
next
  case (2 a b)
  then show ?thesis by (simp add: month_step)
qed

lemma day_number_cases:
  assumes "day_number d"
  obtains a where "d = [a]" "in_range CHR ''1'' CHR ''9'' a"
  | a b where "d = [a, b]" "is_digit a" "is_digit b"
      "1 \<le> nat_of_digits [a, b] \<and> nat_of_digits [a, b] \<le> 31"
  | b where "d = [CHR '' '', b]" "in_range CHR ''1'' CHR ''9'' b"
proof -
  from assms consider "length d = 1" | "length d = 2" by (auto simp: day_number_def)
  then show thesis
  proof cases
    case 1
    then obtain a where d: "d = [a]" by (cases d) auto
    with assms have "in_range CHR ''1'' CHR ''9'' a"
      by (auto simp: day_number_def one_digit_value is_digit_def in_range_def code_simps)
    with d that(1) show thesis by blast
  next
    case 2
    then obtain a b where d: "d = [a, b]"
      by (cases d) (auto simp: length_Suc_conv)
    with assms that(2) that(3) show thesis by (auto simp: day_number_def)
  qed
qed

lemma day_alts_first:
  assumes "day_number d"
  shows "\<exists>others. day_alts d = (d, []) # others"
  using assms
proof (cases rule: day_number_cases)
  case (1 a)
  then show ?thesis by (simp add: day_alts_def)
next
  case (2 a b)
  then show ?thesis by (simp add: day_alts_digits)
next
  case (3 b)
  have "\<not> in_range CHR ''1'' CHR ''2'' CHR '' ''" "\<not> in_range CHR ''1'' CHR ''9'' CHR '' ''"
    by (simp_all add: in_range_def code_simps)
  with 3 show ?thesis by (simp add: day_alts_def)
qed

lemma day_number_value:
  assumes "day_number d"
  shows "1 \<le> nat_of_digits (dropWhile is_space d)"
  using assms
proof (cases rule: day_number_cases)
  case (1 a)
  then have "is_digit a" by (auto simp: is_digit_def in_range_def code_simps)
  with 1 show ?thesis
    by (auto simp: digit_not_space one_digit_value in_range_def code_simps)
next
  case (2 a b)
  then show ?thesis by (simp add: digit_not_space)
next
  case (3 b)
  then have "is_digit b" by (auto simp: is_digit_def in_range_def code_simps)
  moreover have "is_space CHR '' ''" by (simp add: is_space_def code_simps)
  ultimately show ?thesis using 3
    by (auto simp: digit_not_space one_digit_value in_range_def code_simps)
qed

lemma four_digits_le:
  assumes "length y = 4" "list_all is_digit y"
  shows "nat_of_digits y \<le> 9999"
proof -
  from assms(1) obtain a b c d where "y = [a, b, c, d]"
    by (auto simp: numeral_eq_Suc length_Suc_conv)
  with assms(2) show ?thesis by (simp add: four_digits_bound)
qed

lemma match_ymd_whole:
  assumes "length y = 4" "list_all is_digit y" "month_number m" "day_number d"
  shows "match_ymd (y @ CHR ''-'' # m @ CHR ''-'' # d) = Some (y, m, d, [])"
proof -
  from day_alts_first [OF assms(4)] obtain others where d: "day_alts d = (d, []) # others" ..
  from assms(1,2) have "year_alts (y @ CHR ''-'' # m @ CHR ''-'' # d)
                          = [(y, CHR ''-'' # m @ CHR ''-'' # d)]"
    by (simp add: year_alts_def)
  then show ?thesis
    by (simp add: match_ymd_def hyphen_simps(1) month_step_number [OF assms(3)] d)
qed

lemma loose_parts:
  assumes "loose_ymd s"
  shows "s = take 4 s @ CHR ''-'' # takeWhile (\<lambda>c. c \<noteq> CHR ''-'') (drop 5 s) @ CHR ''-''
               # drop (Suc (length (takeWhile (\<lambda>c. c \<noteq> CHR ''-'') (drop 5 s)))) (drop 5 s)"
proof -
  let ?r = "drop 5 s" and ?m = "takeWhile (\<lambda>c. c \<noteq> CHR ''-'') (drop 5 s)"
  from assms have h1: "take 1 (drop 4 s) = ''-''" and h2: "take 1 (drop (length ?m) ?r) = ''-''"
    by (simp_all add: loose_ymd_def Let_def)
  have "drop 4 s = take 1 (drop 4 s) @ drop 1 (drop 4 s)" by (simp only: append_take_drop_id)
  with h1 have a: "drop 4 s = CHR ''-'' # ?r" by simp
  have "drop (length ?m) ?r = take 1 (drop (length ?m) ?r) @ drop 1 (drop (length ?m) ?r)"
    by (simp only: append_take_drop_id)
  with h2 have b: "drop (length ?m) ?r = CHR ''-'' # drop (Suc (length ?m)) ?r" by simp
  have "?r = take (length ?m) ?r @ drop (length ?m) ?r" by (simp only: append_take_drop_id)
  moreover have "take (length ?m) ?r = ?m"
    by (metis takeWhile_eq_take)
  ultimately have c: "?r = ?m @ CHR ''-'' # drop (Suc (length ?m)) ?r" using b by simp
  have "s = take 4 s @ drop 4 s" by simp
  with a c show ?thesis by metis
qed

lemma strptime_takes_loose:
  assumes "loose_ymd s"
  shows "\<exists>t. strptime_ymd s = Inr t"
proof -
  define y where "y = take 4 s"
  define m where "m = takeWhile (\<lambda>c. c \<noteq> CHR ''-'') (drop 5 s)"
  define d where "d = drop (Suc (length m)) (drop 5 s)"
  from assms have f: "length y = 4" "list_all is_digit y" "month_number m" "day_number d"
    and c: "1 \<le> nat_of_digits y"
      "nat_of_digits (dropWhile is_space d) \<le> days_in_month (nat_of_digits y) (nat_of_digits m)"
    by (simp_all add: loose_ymd_def Let_def y_def m_def d_def)
  from loose_parts [OF assms] have s: "s = y @ CHR ''-'' # m @ CHR ''-'' # d"
    by (simp only: y_def m_def d_def)
  have "match_ymd s = Some (y, m, d, [])" unfolding s by (rule match_ymd_whole [OF f])
  then have "strptime_ymd s = make_date (nat_of_digits y) (nat_of_digits m)
                                 (nat_of_digits (dropWhile is_space d))"
    by (rule strptime_whole)
  moreover from f(3) have "1 \<le> nat_of_digits m" "nat_of_digits m \<le> 12"
    by (simp_all add: month_number_def)
  moreover note c four_digits_le [OF f(1,2)] day_number_value [OF f(4)]
  ultimately show ?thesis by (simp add: make_date_def)
qed

lemma strptime_takes_iff: "(\<exists>t. strptime_ymd s = Inr t) \<longleftrightarrow> loose_ymd s"
  using strptime_accepts_loose strptime_takes_loose by blast

section \<open>The fallback message\<close>



section \<open>Failures of the fetch\<close>

text \<open>
  C4. Whatever the location, the date and the timeout: when \<^verbatim>\<open>client.get\<close> raises an
  exception that derives from \<^verbatim>\<open>Exception\<close> (a network error, a timeout), when the
  status is not 2xx, and when the body is not JSON, the fetcher returns \<^verbatim>\<open>None\<close>, no
  exception leaves it, and it has printed "Weather API error:" and the text of the
  failure.
\<close>

theorem C4_failure_is_None:
  assumes "req = build_request location date timeout_arg"
    and "(\<exists>c. net req = Raises c msg \<and> derives_Exception c)
         \<or> (\<exists>r. net req = Responds r \<and> \<not> is_success r \<and> status_error r = msg)
         \<or> (\<exists>r. net req = Responds r \<and> is_success r \<and> body r = Malformed msg)"
  shows "get_malaysia_weather_forecast net location date timeout_arg =
           ([HttpGet req, Print (''Weather API error: '' @ msg)], Inr JNull)"
  using assms by (auto simp: get_malaysia_weather_forecast_def attempt_def Let_def)

theorem C4_failure_is_None_witness:
  "get_malaysia_weather_forecast (\<lambda>r. Raises ConnectError ''All connection attempts failed'')
       ''Penang'' ''2025-08-06'' None
     = ([HttpGet (build_request ''Penang'' ''2025-08-06'' None),
         Print ''Weather API error: All connection attempts failed''], Inr JNull)
   \<and> get_malaysia_weather_forecast (\<lambda>r. Raises TimeoutException [])
       ''Penang'' ''2025-08-06'' (Some 2)
     = ([HttpGet (build_request ''Penang'' ''2025-08-06'' (Some 2)),
         Print ''Weather API error: ''], Inr JNull)
   \<and> get_malaysia_weather_forecast
       (\<lambda>r. Responds \<lparr>status_code = 404, status_error = ''Client error'',
                       body = Decodes (JObj [])\<rparr>)
       ''Penang'' ''2025-08-06'' None
     = ([HttpGet (build_request ''Penang'' ''2025-08-06'' None),
         Print ''Weather API error: Client error''], Inr JNull)
   \<and> get_malaysia_weather_forecast
       (\<lambda>r. Responds \<lparr>status_code = 200, status_error = [],
                       body = Malformed ''Expecting value''\<rparr>)
       ''Penang'' ''2025-08-06'' None
     = ([HttpGet (build_request ''Penang'' ''2025-08-06'' None),
         Print ''Weather API error: Expecting value''], Inr JNull)"
proof -
  have a: "get_malaysia_weather_forecast
             (\<lambda>r. Raises ConnectError ''All connection attempts failed'')
             ''Penang'' ''2025-08-06'' None
           = ([HttpGet (build_request ''Penang'' ''2025-08-06'' None),
               Print (''Weather API error: '' @ ''All connection attempts failed'')], Inr JNull)"
    by (rule C4_failure_is_None) simp_all
  have b: "get_malaysia_weather_forecast (\<lambda>r. Raises TimeoutException [])
             ''Penang'' ''2025-08-06'' (Some 2)
           = ([HttpGet (build_request ''Penang'' ''2025-08-06'' (Some 2)),
               Print (''Weather API error: '' @ [])], Inr JNull)"
    by (rule C4_failure_is_None) simp_all
  have c: "get_malaysia_weather_forecast
             (\<lambda>r. Responds \<lparr>status_code = 404, status_error = ''Client error'',
                             body = Decodes (JObj [])\<rparr>)
             ''Penang'' ''2025-08-06'' None
           = ([HttpGet (build_request ''Penang'' ''2025-08-06'' None),
               Print (''Weather API error: '' @ ''Client error'')], Inr JNull)"
    by (rule C4_failure_is_None) (simp_all add: is_success_def)
  have d: "get_malaysia_weather_forecast
             (\<lambda>r. Responds \<lparr>status_code = 200, status_error = [],
                             body = Malformed ''Expecting value''\<rparr>)
             ''Penang'' ''2025-08-06'' None
           = ([HttpGet (build_request ''Penang'' ''2025-08-06'' None),
               Print (''Weather API error: '' @ ''Expecting value'')], Inr JNull)"
    by (rule C4_failure_is_None) (simp_all add: is_success_def)
  from a b c d show ?thesis by simp
qed

section \<open>The request\<close>



text \<open>
  C7. The timeout of the fetcher is 15 when the caller gives none, and the one request
  that a call of the formatter sends carries that timeout.
\<close>

theorem C7_default_timeout:
  "map timeout (requests (fst (get_malaysia_weather_forecast net location date None))) = [15]
   \<and> get_malaysia_weather_forecast net location date None =
       get_malaysia_weather_forecast net location date (Some 15)
   \<and> map timeout (requests (fst (format_weather_forecast net location date))) = [15]"
proof -
  have b: "build_request location date None = build_request location date (Some 15)"
    by (simp add: build_request_def)
  have t: "timeout (build_request location date None) = 15"
    by (simp add: build_request_def)
  have same: "get_malaysia_weather_forecast net location date None =
              get_malaysia_weather_forecast net location date (Some 15)"
    unfolding get_malaysia_weather_forecast_def b ..
  have sent:
    "map timeout (requests (fst (get_malaysia_weather_forecast net location date None))) = [15]"
    by (simp add: fetch_requests t)
  have "map timeout (requests (fst (format_weather_forecast net location date))) = [15]"
    unfolding format_events by (rule sent)
  with same sent show ?thesis by blast
qed

theorem C7_default_timeout_witness:
  "map timeout (requests (fst (format_weather_forecast
      (\<lambda>r. if timeout r = 15 then Raises TimeoutException ''slow'' else Raises ConnectError [])
      ''Penang'' ''2025-08-06''))) = [15]"
  using C7_default_timeout
    [of "\<lambda>r. if timeout r = 15 then Raises TimeoutException ''slow'' else Raises ConnectError []"
        "''Penang''" "''2025-08-06''"]
  by simp

section \<open>The report depends on the fetch only through its result\<close>



section \<open>The report\<close>






section \<open>The date\<close>



text \<open>
  C3, as the code has it. A date string is rejected by \<^verbatim>\<open>strptime\<close> unless it is a day
  of the calendar written as a year of four digits, a month and a day of one or two
  digits each (or a day of a space and a digit), with hyphens between. When the fetch
  gives a mapping whose \<open>data\<close> is a non-empty list, every other date string makes the
  formatter raise \<^verbatim>\<open>ValueError\<close>: neither the fallback nor a report is returned.
\<close>

theorem C3_bad_date_raises:
  assumes "\<not> loose_ymd date"
    and "snd (get_malaysia_weather_forecast net location date None) = Inr (JObj d)"
    and "map_of d ''data'' = Some (JArr (x # others))"
  shows "snd (format_weather_forecast net location date) = Inl ValueError"
  using format_with_record [OF assms(2) assms(3)] strptime_rejects [OF assms(1)]
  by simp

theorem C3_bad_date_raises_witness:
  "snd (format_weather_forecast (answers (JObj [(''data'', JArr [JObj sunny])]))
          ''Penang'' ''06-08-2025'') = Inl ValueError"
proof -
  have d: "\<not> loose_ymd ''06-08-2025''" by code_simp
  show ?thesis
    by (rule C3_bad_date_raises [OF d fetch_answers']) simp
qed

text \<open>
  As the claim is written it fails twice. The fallback of lines 62-63 comes before the
  date is parsed, so with a fetch that gives nothing a malformed date comes back inside
  the fallback message; and \<^verbatim>\<open>strptime\<close> accepts a month and a day of one digit, so a
  date that is not in the form YYYY-MM-DD can give a report.
\<close>

theorem C3_counterexample:
  "snd (format_weather_forecast
          (\<lambda>r. Responds \<lparr>status_code = 400, status_error = ''Client error'',
                          body = Decodes JNull\<rparr>)
          ''Penang'' ''06-08-2025'')
     = Inr ''No forecast available for Penang on 06-08-2025''
   \<and> snd (format_weather_forecast (answers (JObj [(''data'', JArr [JObj sunny])]))
            ''Penang'' ''2025-8-6'')
     = Inr (layout ''Penang Weather Forecast (06 Aug 2025):'' (shown sunny))"
proof -
  have t: "py_title ''Penang'' = ''Penang''" by code_simp
  have f: "snd (get_malaysia_weather_forecast
                  (\<lambda>r. Responds \<lparr>status_code = 400, status_error = ''Client error'',
                                  body = Decodes JNull\<rparr>)
                  ''Penang'' ''06-08-2025'' None) = Inr JNull"
    by (simp add: fetch_result attempt_def is_success_def)
  have a: "snd (format_weather_forecast
          (\<lambda>r. Responds \<lparr>status_code = 400, status_error = ''Client error'',
                          body = Decodes JNull\<rparr>)
          ''Penang'' ''06-08-2025'')
     = Inr ''No forecast available for Penang on 06-08-2025''"
    by (simp add: format_result f format_body_None fallback_def t)
  have d: "strptime_ymd ''2025-8-6'' = Inr \<lparr>year = 2025, month = 8, day = 6\<rparr>"
    by code_simp
  have l: "title_line (py_title ''Penang'') (strftime_dbY \<lparr>year = 2025, month = 8, day = 6\<rparr>)
           = ''Penang Weather Forecast (06 Aug 2025):''"
    by code_simp
  from format_with_record [of "answers (JObj [(''data'', JArr [JObj sunny])])" "''Penang''"
         "''2025-8-6''" "[(''data'', JArr [JObj sunny])]" "JObj sunny" "[]"]
  have b: "snd (format_weather_forecast (answers (JObj [(''data'', JArr [JObj sunny])]))
            ''Penang'' ''2025-8-6'')
     = Inr (layout ''Penang Weather Forecast (06 Aug 2025):'' (shown sunny))"
    by (simp add: fetch_answers' d l)
  from a b show ?thesis by blast
qed

section \<open>Title-casing\<close>




lemma code_less: "code c < 256"
  by (simp add: code_def)








end
